theory Spec2Isabelle
  imports Main "HOL-Library.List_Lexorder" "HOL-Library.Char_ord"
begin

section \<open>The script \<open>lstm_train.py\<close>\<close>

text \<open>
  The repository is one script. Its \<open>main\<close> prints a greeting, reads
  \<open>data/SBUX.csv\<close> with pandas, prints the first five rows, selects the
  \<open>ggplot\<close> style, plots the \<open>Volume\<close> column and shows the figure. The five
  steps after that (define, compile, train, evaluate and save a model) are comments
  without code.

  The script is embedded as a function on an explicit world: the files it can read,
  what it printed, the calls it made to the CSV reader, the plotting state. Every Python
  exception is a value: a run of \<open>main\<close> is either \<open>Inr\<close> the world it leaves, or
  \<open>Inl\<close> the exception together with the world at the moment it was raised.
\<close>

subsection \<open>Data\<close>

text \<open>
  A file is taken as the CSV parser of pandas classifies it: without content, not
  tokenizable, or a table of named columns (pandas gives the columns distinct names).
  A column is its name, the dtype pandas infers for it (numeric, or \<open>object\<close> for
  anything else, as for a column of a table without rows) and its cells from the first
  row down, as text.
\<close>

datatype dtype = Numeric | Object

type_synonym column = "string \<times> dtype \<times> string list"

datatype csv_file = EmptyFile | Malformed | Table "column list"

text \<open>A \<open>DataFrame\<close>: the index column and the remaining columns, in file order.\<close>

record dataframe =
  index_name :: string
  index_values :: "string list"
  data_columns :: "column list"

text \<open>A \<open>Series\<close>, as \<open>df['Volume']\<close> returns it: one column with the frame's index.\<close>

record series =
  series_name :: string
  series_dtype :: dtype
  series_index :: "string list"
  series_values :: "string list"

record figure =
  fig_style :: string
  fig_label :: string
  fig_title :: string
  fig_x :: "string list"
  fig_y :: "string list"

datatype py_exception =
    FileNotFoundError string
  | EmptyDataError
  | ParserError
  | ValueError string
  | KeyError string
  | TypeError string

datatype printed = Text string | Preview dataframe

record world =
  files :: "string \<rightharpoonup> csv_file"
  csv_reads :: "(string \<times> string \<times> bool) list"
  stdout :: "printed list"
  stderr :: "py_exception list"
  mpl_style :: string
  pending :: "figure list"
  shown :: "figure list"

type_synonym outcome = "(py_exception \<times> world) + world"

subsection \<open>The library calls \<open>main\<close> makes\<close>

definition py_print :: "printed \<Rightarrow> world \<Rightarrow> world" where
  "py_print x w = w\<lparr>stdout := stdout w @ [x]\<rparr>"

text \<open>
  \<open>pd.read_csv(path, index_col=c, parse_dates=p)\<close>: a missing file, a file without
  content, a file the tokenizer rejects and a table without the column \<open>c\<close> each raise
  the exception pandas has for it. Otherwise the column \<open>c\<close> becomes the index and the
  other columns the data, every row kept and in the order of the file. With
  \<open>parse_dates\<close> the index entries are read as dates; that changes neither their number
  nor their order, and the entries are kept as the file has them.
\<close>

definition read_csv ::
  "(string \<rightharpoonup> csv_file) \<Rightarrow> string \<Rightarrow> string \<Rightarrow> bool \<Rightarrow> py_exception + dataframe" where
  "read_csv fs path index_col parse_dates =
     (case fs path of
        None \<Rightarrow> Inl (FileNotFoundError path)
      | Some EmptyFile \<Rightarrow> Inl EmptyDataError
      | Some Malformed \<Rightarrow> Inl ParserError
      | Some (Table cols) \<Rightarrow>
          (case map_of cols index_col of
             None \<Rightarrow> Inl (ValueError index_col)
           | Some (t, ds) \<Rightarrow>
               Inr \<lparr>index_name = index_col, index_values = ds,
                    data_columns = filter (\<lambda>c. fst c \<noteq> index_col) cols\<rparr>))"

text \<open>\<open>df.head(n)\<close>: the first \<open>n\<close> rows.\<close>

definition df_head :: "nat \<Rightarrow> dataframe \<Rightarrow> dataframe" where
  "df_head n df =
     df\<lparr>index_values := take n (index_values df),
        data_columns := map (\<lambda>(name, t, xs). (name, t, take n xs)) (data_columns df)\<rparr>"

text \<open>\<open>df[name]\<close>: the column of that name, \<open>KeyError\<close> when there is none.\<close>

definition getitem :: "dataframe \<Rightarrow> string \<Rightarrow> py_exception + series" where
  "getitem df name =
     (case map_of (data_columns df) name of
        None \<Rightarrow> Inl (KeyError name)
      | Some (t, xs) \<Rightarrow>
          Inr \<lparr>series_name = name, series_dtype = t, series_index = index_values df,
               series_values = xs\<rparr>)"

definition style_use :: "string \<Rightarrow> world \<Rightarrow> world" where
  "style_use s w = w\<lparr>mpl_style := s\<rparr>"

text \<open>
  \<open>s.plot(label=l, title=t)\<close> draws a numeric series on a figure that is not shown yet,
  and raises \<open>TypeError\<close> for a series that is not numeric.
\<close>

definition series_plot :: "series \<Rightarrow> string \<Rightarrow> string \<Rightarrow> world \<Rightarrow> py_exception + world" where
  "series_plot s l t w =
     (if series_dtype s = Numeric
      then Inr (w\<lparr>pending := pending w @
                  [\<lparr>fig_style = mpl_style w, fig_label = l, fig_title = t,
                    fig_x = series_index s, fig_y = series_values s\<rparr>]\<rparr>)
      else Inl (TypeError ''no numeric data to plot''))"

text \<open>\<open>plt.show()\<close> displays the figures drawn so far.\<close>

definition plt_show :: "world \<Rightarrow> world" where
  "plt_show w = w\<lparr>shown := shown w @ pending w, pending := []\<rparr>"

subsection \<open>\<open>main\<close>\<close>

text \<open>
  Line by line: the greeting; the read (logged in \<open>csv_reads\<close> with its arguments),
  whose exception ends the run; the preview; the style; the column lookup, whose
  \<open>KeyError\<close> ends the run; the plot, whose \<open>TypeError\<close> ends the run; the display.
  The comment lines that follow have no code, so the run ends there and \<open>main\<close>
  returns \<open>None\<close>.
\<close>

definition main :: "world \<Rightarrow> outcome" where
  "main w =
     (let w1 = py_print (Text ''Hello World!'') w;
          w2 = w1\<lparr>csv_reads := csv_reads w1 @ [(''data/SBUX.csv'', ''Date'', True)]\<rparr>
      in case read_csv (files w2) ''data/SBUX.csv'' ''Date'' True of
           Inl e \<Rightarrow> Inl (e, w2)
         | Inr df \<Rightarrow>
             (let w3 = py_print (Preview (df_head 5 df)) w2;
                  w4 = style_use ''ggplot'' w3
              in case getitem df ''Volume'' of
                   Inl e \<Rightarrow> Inl (e, w4)
                 | Inr s \<Rightarrow>
                     (case series_plot s ''CLOSE'' ''Star Bucks Stock Volume'' w4 of
                        Inl e \<Rightarrow> Inl (e, w4)
                      | Inr w5 \<Rightarrow> Inr (plt_show w5))))"

text \<open>
  The module body, after the imports and the \<open>def\<close>: the guard
  \<open>if __name__ == "__main__": main()\<close>, for the name the module is loaded under.
\<close>

definition module_body :: "string \<Rightarrow> world \<Rightarrow> outcome" where
  "module_body name w = (if name = ''__main__'' then main w else Inr w)"

text \<open>
  Running the file as a script: the interpreter loads it under the name \<open>__main__\<close>;
  when the body returns the exit status is 0, and when an exception leaves it the
  interpreter writes the traceback to the error stream and the exit status is 1.
\<close>

definition run_script :: "world \<Rightarrow> nat \<times> world" where
  "run_script w =
     (case module_body ''__main__'' w of
        Inr w' \<Rightarrow> (0, w')
      | Inl (e, w') \<Rightarrow> (1, w'\<lparr>stderr := stderr w' @ [e]\<rparr>))"

text \<open>The world a run leaves, whether it returned or raised.\<close>

definition final_world :: "outcome \<Rightarrow> world" where
  "final_world r = (case r of Inl (e, w') \<Rightarrow> w' | Inr w' \<Rightarrow> w')"

subsection \<open>Worlds and files to run the script on\<close>

text \<open>The world at the start of a run: the given files, nothing printed or drawn yet.\<close>

definition start_world :: "(string \<rightharpoonup> csv_file) \<Rightarrow> world" where
  "start_world fs =
     \<lparr>files = fs, csv_reads = [], stdout = [], stderr = [], mpl_style = ''default'',
      pending = [], shown = []\<rparr>"

text \<open>Two trading days with all six columns.\<close>

definition daily_file :: csv_file where
  "daily_file =
     Table [(''Date'', Object, [''2021-01-04'', ''2021-01-05'']),
            (''Open'', Numeric, [''106.5'', ''103.0'']),
            (''High'', Numeric, [''107.7'', ''104.2'']),
            (''Low'', Numeric, [''102.1'', ''102.4'']),
            (''Close'', Numeric, [''103.1'', ''103.4'']),
            (''Volume'', Numeric, [''200'', ''300''])]"

text \<open>Rows out of order, one date twice.\<close>

definition shuffled_file :: csv_file where
  "shuffled_file =
     Table [(''Date'', Object, [''2021-01-05'', ''2021-01-04'', ''2021-01-05'']),
            (''Volume'', Numeric, [''300'', ''200'', ''300''])]"




text \<open>
  Dates strictly ascending, for dates written year-month-day with leading zeros, which
  compare as their text does.
\<close>

definition ascending_dates :: "string list \<Rightarrow> bool" where
  "ascending_dates ds = sorted_wrt (\<lambda>a b. a < b) ds"

section \<open>Properties\<close>

lemmas steps = py_print_def style_use_def series_plot_def plt_show_def

lemma main_files: "files (final_world (main w)) = files w"
  by (auto simp add: main_def final_world_def steps Let_def split: sum.splits if_splits)

lemma main_reads:
  "csv_reads (final_world (main w)) = csv_reads w @ [(''data/SBUX.csv'', ''Date'', True)]"
  by (auto simp add: main_def final_world_def steps Let_def split: sum.splits if_splits)

subsection \<open>What \<open>main\<close> touches\<close>

text \<open>
  C7: \<open>main\<close> writes no file. Whatever the files hold, and whether the run returns or
  raises, the files after the run are the files before it, also when the file is run as a
  script; the run makes one call to the CSV reader. So no run creates or overwrites a
  file, and none leaves a model artifact.
\<close>

theorem main_writes_no_file:
  "files (final_world (main w)) = files w
   \<and> files (snd (run_script w)) = files w
   \<and> length (csv_reads (final_world (main w))) = Suc (length (csv_reads w))"
  using main_files [of w] main_reads [of w]
  by (auto simp add: run_script_def module_body_def final_world_def
      split: sum.splits prod.splits)



subsection \<open>The entry point\<close>

text \<open>
  C10: \<open>main\<close> runs only when the module is run as a script. Loaded under the name
  \<open>__main__\<close> the module body is the run of \<open>main\<close>; loaded under any other name, as an
  import does, it returns with the world as it was: nothing printed, no file read,
  nothing plotted.
\<close>

theorem main_runs_only_as_script:
  "module_body ''__main__'' w = main w
   \<and> (name \<noteq> ''__main__'' \<longrightarrow> module_body name w = Inr w)"
  by (simp add: module_body_def)

theorem main_runs_only_as_script_witness:
  "module_body ''lstm_train'' (start_world [''data/SBUX.csv'' \<mapsto> daily_file])
     = Inr (start_world [''data/SBUX.csv'' \<mapsto> daily_file])"
  using main_runs_only_as_script
    [of "start_world [''data/SBUX.csv'' \<mapsto> daily_file]" "''lstm_train''"]
  by simp

subsection \<open>The loader\<close>

text \<open>
  The loader is the call on line 11, \<open>pd.read_csv('data/SBUX.csv', index_col='Date',
  parse_dates=True)\<close>. That it would hand back the dates strictly ascending and without
  repetition whatever the order of the rows fails: a file with the rows out of order
  and one date twice is accepted, and its index is neither ascending nor free of
  repetition.
\<close>

theorem loader_output_unsorted_counterexample:
  "\<not> (case read_csv (files (start_world [''data/SBUX.csv'' \<mapsto> shuffled_file]))
             ''data/SBUX.csv'' ''Date'' True of
        Inl e \<Rightarrow> True
      | Inr df \<Rightarrow> ascending_dates (index_values df) \<and> distinct (index_values df))"
  by (simp add: read_csv_def start_world_def shuffled_file_def ascending_dates_def)

text \<open>
  C1, as amended: for every file the loader accepts, the index of the frame is the
  \<open>Date\<close> column of the file, every row kept and in the order of the file. The loader
  neither sorts nor removes repeated dates: its output is strictly ascending exactly
  when the file's \<open>Date\<close> column is, and free of repetition exactly when that column is.
\<close>

theorem loader_keeps_file_rows:
  "read_csv (files w) ''data/SBUX.csv'' ''Date'' True = Inr df \<Longrightarrow>
     \<exists>cols t ds. files w ''data/SBUX.csv'' = Some (Table cols)
       \<and> map_of cols ''Date'' = Some (t, ds)
       \<and> index_values df = ds
       \<and> ascending_dates (index_values df) = ascending_dates ds
       \<and> distinct (index_values df) = distinct ds"
  by (auto simp add: read_csv_def split: option.splits csv_file.splits)

theorem loader_keeps_file_rows_witness:
  "\<exists>cols t. files (start_world [''data/SBUX.csv'' \<mapsto> shuffled_file]) ''data/SBUX.csv''
              = Some (Table cols)
     \<and> map_of cols ''Date'' = Some (t, [''2021-01-05'', ''2021-01-04'', ''2021-01-05''])"
proof -
  have accepted:
    "read_csv (files (start_world [''data/SBUX.csv'' \<mapsto> shuffled_file]))
       ''data/SBUX.csv'' ''Date'' True =
     Inr \<lparr>index_name = ''Date'',
          index_values = [''2021-01-05'', ''2021-01-04'', ''2021-01-05''],
          data_columns = [(''Volume'', Numeric, [''300'', ''200'', ''300''])]\<rparr>"
    by (simp add: read_csv_def start_world_def shuffled_file_def)
  show ?thesis
    using loader_keeps_file_rows [OF accepted] by auto
qed




subsection \<open>The exit status\<close>

text \<open>
  That the exit status would be 0 exactly when a model was saved fails: the script has
  no step that saves. A run on a well-formed file exits with status 0 and leaves the
  files as they were, no artifact among them.
\<close>

theorem exit_zero_without_save_counterexample:
  "fst (run_script (start_world [''data/SBUX.csv'' \<mapsto> daily_file])) = 0
   \<and> files (snd (run_script (start_world [''data/SBUX.csv'' \<mapsto> daily_file])))
       = [''data/SBUX.csv'' \<mapsto> daily_file]"
  by (simp add: run_script_def module_body_def main_def read_csv_def getitem_def df_head_def
      steps start_world_def daily_file_def Let_def)

text \<open>
  C5, as amended: the exit status is 0 exactly when \<open>main\<close> returns, and the world is
  then the one \<open>main\<close> left. When an exception leaves \<open>main\<close> (one of the reader, of the
  column lookup or of the plot), the exit status is 1 and the interpreter has written
  the traceback of that exception to the error stream.
\<close>

theorem exit_status_follows_main:
  "(fst (run_script w) = 0) = (\<exists>w'. main w = Inr w')
   \<and> (\<forall>w'. main w = Inr w' \<longrightarrow> run_script w = (0, w'))
   \<and> (\<forall>e w'. main w = Inl (e, w') \<longrightarrow>
         run_script w = (1, w'\<lparr>stderr := stderr w' @ [e]\<rparr>))"
  by (auto simp add: run_script_def module_body_def split: sum.splits prod.splits)

theorem exit_status_follows_main_witness:
  "run_script (start_world Map.empty) =
     (1, \<lparr>files = Map.empty, csv_reads = [(''data/SBUX.csv'', ''Date'', True)],
          stdout = [Text ''Hello World!''],
          stderr = [FileNotFoundError ''data/SBUX.csv''],
          mpl_style = ''default'', pending = [], shown = []\<rparr>)"
proof -
  have raised:
    "main (start_world Map.empty) =
       Inl (FileNotFoundError ''data/SBUX.csv'',
            \<lparr>files = Map.empty, csv_reads = [(''data/SBUX.csv'', ''Date'', True)],
             stdout = [Text ''Hello World!''], stderr = [],
             mpl_style = ''default'', pending = [], shown = []\<rparr>)"
    by (simp add: main_def read_csv_def steps start_world_def Let_def)
  show ?thesis
    using exit_status_follows_main [of "start_world Map.empty"] raised by simp
qed

end
